theory Spec2Isabelle
  imports Complex_Main "HOL-Library.List_Lexorder"
begin

section \<open>Data model of \<open>allele_count_graph.py\<close>\<close>

text \<open>
  A dataset is a Python \<open>dict\<close> from sample identifier to a record
  \<open>{"genotype": str, "allele_1_count": int, "allele_2_count": int}\<close>.
  A \<open>dict\<close> iterates in insertion order and has no duplicate key, so it is an association
  list whose keys are distinct (\<open>wf_dict\<close>). Python integers are unbounded: \<open>int\<close>.
\<close>

record sample =
  genotype :: string
  allele_1_count :: int
  allele_2_count :: int

type_synonym dataset = "(string \<times> sample) list"

definition wf_dict :: "(string \<times> 'v) list \<Rightarrow> bool" where
  "wf_dict d = distinct (map fst d)"

text \<open>The uncaught exceptions the script can die with.\<close>

datatype error =
    KeyError string
  | ValueError_max_empty_sequence
  | OSError string
  | JSONDecodeError string

text \<open>
  The calls made on a pyplot figure, with the arguments the script passes. The x positions
  \<open>i * 2 - 0.5\<close> and \<open>i * 2 + 0.5\<close> are half-integers, which binary floating point
  represents exactly, so they are rationals here.
\<close>

datatype call =
    Figure "rat \<times> rat"
  | Scatter "rat list" "int list" string string nat
  | Plot "rat list" "int list" string
  | Legend "call list" "string list" string nat
  | Ylim int int
  | Text int int string string string string nat string
  | Xlabel string nat nat
  | Ylabel string nat
  | Title string nat
  | Set_xticks "rat list"
  | Set_xticklabels "string list"
  | Spine_set_visible string bool
  | Set_facecolor string
  | Grid string

text \<open>
  The state the script runs in: the \<open>dict\<close> objects it holds by reference (a store from
  references to datasets), pyplot's figures (the last one is the current figure, each one
  the list of calls made on it), the image files written so far as (name, dpi, figure),
  and what \<open>open\<close> followed by \<open>json.load\<close> gives for each path.
\<close>

record world =
  heap :: "nat \<Rightarrow> dataset"
  next_ref :: nat
  figures :: "call list list"
  files :: "(string \<times> nat \<times> call list) list"
  filesystem :: "string \<Rightarrow> error + dataset"

text \<open>A statement either raises (leaving the state as it was at the raise) or returns.\<close>

type_synonym 'a py = "world \<Rightarrow> (error + 'a) \<times> world"

definition py_return :: "'a \<Rightarrow> 'a py" where
  "py_return x w = (Inr x, w)"

definition py_raise :: "error \<Rightarrow> 'a py" where
  "py_raise e w = (Inl e, w)"

definition py_bind :: "'a py \<Rightarrow> ('a \<Rightarrow> 'b py) \<Rightarrow> 'b py" where
  "py_bind m f w = (case m w of (Inl e, w') \<Rightarrow> (Inl e, w') | (Inr x, w') \<Rightarrow> f x w')"

definition py_then :: "unit py \<Rightarrow> 'b py \<Rightarrow> 'b py" where
  "py_then m n = py_bind m (\<lambda>_. n)"

text \<open>A \<open>for\<close> loop over a list, and a list comprehension whose element expression may raise.\<close>

fun py_for :: "'a list \<Rightarrow> ('a \<Rightarrow> unit py) \<Rightarrow> unit py" where
  "py_for [] body = py_return ()"
| "py_for (x # xs) body = py_then (body x) (py_for xs body)"

fun py_comprehension :: "('a \<Rightarrow> 'b py) \<Rightarrow> 'a list \<Rightarrow> 'b list py" where
  "py_comprehension f [] = py_return []"
| "py_comprehension f (x # xs) =
     py_bind (f x) (\<lambda>y. py_bind (py_comprehension f xs) (\<lambda>ys. py_return (y # ys)))"

subsection \<open>Python built-ins the script uses\<close>

text \<open>\<open>d[k]\<close> on a dict value, raising \<open>KeyError\<close> for a missing key.\<close>

definition getitem :: "(string \<times> 'v) list \<Rightarrow> string \<Rightarrow> 'v py" where
  "getitem d k = (case map_of d k of None \<Rightarrow> py_raise (KeyError k) | Some v \<Rightarrow> py_return v)"

text \<open>Reading through the reference \<open>counts\<close>: \<open>counts[k]\<close>, \<open>for k in counts\<close>, \<open>counts.values()\<close>.\<close>

definition counts_getitem :: "nat \<Rightarrow> string \<Rightarrow> sample py" where
  "counts_getitem counts k w = getitem (heap w counts) k w"

definition counts_keys :: "nat \<Rightarrow> string list py" where
  "counts_keys counts w = (Inr (map fst (heap w counts)), w)"

definition counts_values :: "nat \<Rightarrow> sample list py" where
  "counts_values counts w = (Inr (map snd (heap w counts)), w)"

text \<open>
  \<open>max(xs)\<close> with one iterable argument raises \<open>ValueError\<close> on an empty one.
  Otherwise it starts from the first item and replaces it by each later item that is
  greater. Integers compare as numbers and lists compare lexicographically, which is the
  order of \<open>List_Lexorder\<close>.
\<close>

fun py_max_iterable :: "'a::linorder list \<Rightarrow> 'a py" where
  "py_max_iterable [] = py_raise ValueError_max_empty_sequence"
| "py_max_iterable (x # xs) =
     py_return (fold (\<lambda>item largest. if largest < item then item else largest) xs x)"

subsection \<open>pyplot\<close>

text \<open>
  \<open>plt.figure\<close> opens a new figure and makes it current. Every other call acts on the
  current figure, opening one of the default size (6.4, 4.8) when there is none.
\<close>

definition plt_figure :: "rat \<times> rat \<Rightarrow> unit py" where
  "plt_figure figsize w = (Inr (), w\<lparr>figures := figures w @ [[Figure figsize]]\<rparr>)"

definition gcf_add :: "call \<Rightarrow> call list list \<Rightarrow> call list list" where
  "gcf_add c figs =
     (if figs = [] then [[Figure (32 / 5, 24 / 5), c]] else butlast figs @ [last figs @ [c]])"

definition plt_call :: "call \<Rightarrow> unit py" where
  "plt_call c w = (Inr (), w\<lparr>figures := gcf_add c (figures w)\<rparr>)"

text \<open>\<open>plt.scatter\<close> returns the artist it made (the legend takes artists as handles).\<close>

definition plt_scatter :: "rat list \<Rightarrow> int list \<Rightarrow> string \<Rightarrow> string \<Rightarrow> nat \<Rightarrow> call py" where
  "plt_scatter xs ys color marker s =
     py_then (plt_call (Scatter xs ys color marker s)) (py_return (Scatter xs ys color marker s))"

definition plt_savefig :: "string \<Rightarrow> nat \<Rightarrow> unit py" where
  "plt_savefig fname dpi w =
     (let figs = (if figures w = [] then [[Figure (32 / 5, 24 / 5)]] else figures w)
      in (Inr (), w\<lparr>figures := figs, files := files w @ [(fname, dpi, last figs)]\<rparr>))"

section \<open>The script\<close>

subsection \<open>Module constants (lines 32 to 60)\<close>

definition GENOTYPES :: "string list" where
  "GENOTYPES = [''hom_ref'', ''het'', ''hom_alt'']"

definition GENOTYPE_SPACING :: int where
  "GENOTYPE_SPACING = 2"

definition GENOTYPE_COLOURS :: "(string \<times> string) list" where
  "GENOTYPE_COLOURS = [(''hom_ref'', ''blue''), (''het'', ''orange''), (''hom_alt'', ''red'')]"

definition GENOTYPE_LABELS :: "(string \<times> string) list" where
  "GENOTYPE_LABELS =
     [(''hom_ref'', ''Homozygous'' @ [CHR 0x0A] @ ''reference''),
      (''het'', ''Heterozygous''),
      (''hom_alt'', ''Homozygous'' @ [CHR 0x0A] @ ''alternate'')]"

definition ALLELE_MARKERS :: "(string \<times> string) list" where
  "ALLELE_MARKERS = [(''allele_1'', ''o''), (''allele_2'', ''x'')]"

definition EXAMPLE_DATA :: dataset where
  "EXAMPLE_DATA =
     [(''1'', \<lparr>genotype = ''hom_ref'', allele_1_count = 2, allele_2_count = 4\<rparr>),
      (''2'', \<lparr>genotype = ''hom_ref'', allele_1_count = 3, allele_2_count = 6\<rparr>),
      (''3'', \<lparr>genotype = ''het'', allele_1_count = 4, allele_2_count = 40\<rparr>),
      (''4'', \<lparr>genotype = ''het'', allele_1_count = 5, allele_2_count = 39\<rparr>),
      (''5'', \<lparr>genotype = ''hom_alt'', allele_1_count = 60, allele_2_count = 54\<rparr>),
      (''6'', \<lparr>genotype = ''hom_alt'', allele_1_count = 58, allele_2_count = 62\<rparr>)]"

text \<open>
  The state after the module body has run: the object \<open>EXAMPLE_DATA\<close> lives at reference
  0, no figure is open and no file is written. The file system is a parameter.
\<close>

definition EXAMPLE_DATA_ref :: nat where
  "EXAMPLE_DATA_ref = 0"

definition module_init :: "(string \<Rightarrow> error + dataset) \<Rightarrow> world" where
  "module_init fs =
     \<lparr>heap = (\<lambda>_. [])(EXAMPLE_DATA_ref := EXAMPLE_DATA), next_ref = 1, figures = [],
      files = [], filesystem = fs\<rparr>"

subsection \<open>\<open>read_data\<close> (lines 72 to 77)\<close>

text \<open>
  With no path the function returns the object \<open>EXAMPLE_DATA\<close> itself, not a copy;
  \<open>json.load\<close> builds a new object.
\<close>

definition read_data :: "string option \<Rightarrow> nat py" where
  "read_data path_to_json w =
     (case path_to_json of
        None \<Rightarrow> (Inr EXAMPLE_DATA_ref, w)
      | Some p \<Rightarrow>
          (case filesystem w p of
             Inl e \<Rightarrow> (Inl e, w)
           | Inr d \<Rightarrow>
               (Inr (next_ref w),
                w\<lparr>heap := (heap w)(next_ref w := d), next_ref := Suc (next_ref w)\<rparr>)))"

subsection \<open>\<open>create_plot\<close> (lines 80 to 151)\<close>

text \<open>
  Lines 84 to 87. The inner comprehension
  \<open>[counts[sample] for sample in counts if counts[sample]["genotype"] == genotype]\<close>
  walks the keys and looks each one up, once for the test and once for the element.
\<close>

fun bucket_of :: "nat \<Rightarrow> string \<Rightarrow> string list \<Rightarrow> sample list py" where
  "bucket_of counts g [] = py_return []"
| "bucket_of counts g (k # ks) =
     py_bind (counts_getitem counts k) (\<lambda>v.
       if genotype v = g
       then py_bind (counts_getitem counts k) (\<lambda>v'.
              py_bind (bucket_of counts g ks) (\<lambda>rest. py_return (v' # rest)))
       else bucket_of counts g ks)"

definition data_by_genotype :: "nat \<Rightarrow> (string \<times> sample list) list py" where
  "data_by_genotype counts =
     py_comprehension
       (\<lambda>g. py_bind (counts_keys counts) (\<lambda>ks.
              py_bind (bucket_of counts g ks) (\<lambda>b. py_return (g, b))))
       GENOTYPES"

text \<open>Lines 106 and 107: one connecting segment per zipped quadruple.\<close>

definition connect_points :: "string \<Rightarrow> rat \<times> rat \<times> int \<times> int \<Rightarrow> unit py" where
  "connect_points g = (\<lambda>(x1, x2, y1, y2).
     py_bind (getitem GENOTYPE_COLOURS g) (\<lambda>colour.
       plt_call (Plot [x1, x2] [y1, y2] colour)))"

text \<open>Lines 91 to 107: the body of the loop over \<open>enumerate(GENOTYPES)\<close>.\<close>

definition plot_genotype :: "(string \<times> sample list) list \<Rightarrow> nat \<times> string \<Rightarrow> unit py" where
  "plot_genotype by_genotype = (\<lambda>(i, g).
     py_bind (getitem by_genotype g) (\<lambda>data.
       let x_1 = replicate (length data) (of_int (int i * GENOTYPE_SPACING) - 1 / 2);
           x_2 = replicate (length data) (of_int (int i * GENOTYPE_SPACING) + 1 / 2);
           y_1 = map allele_1_count data;
           y_2 = map allele_2_count data
       in
       py_bind (getitem GENOTYPE_COLOURS g) (\<lambda>c1.
       py_bind (getitem ALLELE_MARKERS ''allele_1'') (\<lambda>m1.
       py_bind (plt_scatter x_1 y_1 c1 m1 100) (\<lambda>_.
       py_bind (getitem GENOTYPE_COLOURS g) (\<lambda>c2.
       py_bind (getitem ALLELE_MARKERS ''allele_2'') (\<lambda>m2.
       py_bind (plt_scatter x_2 y_2 c2 m2 100) (\<lambda>_.
       py_for (zip x_1 (zip x_2 (zip y_1 y_2))) (connect_points g)))))))))"

text \<open>Lines 123 to 132: the body of the labelling loop.\<close>

definition label_genotype :: "nat \<times> string \<Rightarrow> unit py" where
  "label_genotype = (\<lambda>(i, g).
     py_bind (getitem GENOTYPE_LABELS g) (\<lambda>label.
     py_bind (getitem GENOTYPE_COLOURS g) (\<lambda>colour.
       plt_call (Text (int i * GENOTYPE_SPACING) (- 1) label colour
                   ''center'' ''top'' 10 ''bold''))))"

text \<open>Lines 134 to 151: labels, ticks, spines, background and grid.\<close>

definition make_pretty :: "unit py" where
  "make_pretty =
     py_then (plt_call (Xlabel ''Genotype'' 14 30)) (
     py_then (plt_call (Ylabel ''Allele Count'' 14)) (
     py_then (plt_call (Title ''Allele Counts by Genotype'' 20)) (
     py_then (plt_call (Set_xticks [])) (
     py_then (plt_call (Set_xticklabels [])) (
     py_then (plt_call (Spine_set_visible ''top'' False)) (
     py_then (plt_call (Spine_set_visible ''right'' False)) (
     py_then (plt_call (Set_facecolor ''#EAEAF2''))
             (plt_call (Grid ''white'')))))))))"

text \<open>
  Line 119 is \<open>max(*[max([a1, a2] for sample in counts.values())])\<close>: the \<open>for\<close>
  stands inside the inner call, so the inner \<open>max\<close> runs over a generator of the
  two-element lists \<open>[a1, a2]\<close> and returns the largest list. The starred list display
  has that list as its only element, so the outer call is \<open>max\<close> with that one list as
  its iterable argument.
\<close>

definition create_plot :: "nat \<Rightarrow> unit py" where
  "create_plot counts =
     py_then (plt_figure (10, 10)) (
     py_bind (data_by_genotype counts) (\<lambda>by_genotype.
     py_then (py_for (enumerate 0 GENOTYPES) (plot_genotype by_genotype)) (
     py_bind (py_comprehension (\<lambda>marker. plt_scatter [] [] ''black'' marker 100)
                (map snd ALLELE_MARKERS)) (\<lambda>handles.
     py_then (plt_call (Legend handles [''Allele 1'', ''Allele 2''] ''upper left'' 14)) (
     py_bind (counts_values counts) (\<lambda>samples.
     py_bind (py_max_iterable
                (map (\<lambda>sample. [allele_1_count sample, allele_2_count sample]) samples))
             (\<lambda>largest.
     py_bind (py_max_iterable largest) (\<lambda>max_value.
     py_then (plt_call (Ylim 0 (max_value + 10))) (
     py_then (py_for (enumerate 0 GENOTYPES) label_genotype)
             make_pretty)))))))))"

subsection \<open>The main block (lines 154 to 162)\<close>

text \<open>
  \<open>parse_args\<close> is \<open>argparse\<close>: its result, the namespace with \<open>input_json\<close> (absent
  unless given) and \<open>save_plot\<close> (true exactly when the flag is given), is the input here.
\<close>

record args =
  input_json :: "string option"
  save_plot :: bool

definition main :: "args \<Rightarrow> unit py" where
  "main a =
     py_bind (read_data (input_json a)) (\<lambda>allele_counts.
     py_then (create_plot allele_counts) (
       if save_plot a then plt_savefig ''allele_count_graph.png'' 300 else py_return ()))"

section \<open>Vocabulary for the properties\<close>

subsection \<open>Reading a figure\<close>

text \<open>The current figure, and what has been drawn on a figure: the points of the scatter
  calls with a given marker, the connecting segments (each the list of its end points),
  and the y-axis limits set.\<close>

definition gcf :: "world \<Rightarrow> call list" where
  "gcf w = (if figures w = [] then [] else last (figures w))"

fun points_of :: "string \<Rightarrow> call \<Rightarrow> (rat \<times> int) list" where
  "points_of m (Scatter xs ys c m' s) = (if m' = m then zip xs ys else [])"
| "points_of m _ = []"

definition scatter_points :: "string \<Rightarrow> call list \<Rightarrow> (rat \<times> int) list" where
  "scatter_points m fig = concat (map (points_of m) fig)"

fun segment_of :: "call \<Rightarrow> (rat \<times> int) list list" where
  "segment_of (Plot xs ys c) = [zip xs ys]"
| "segment_of _ = []"

definition segments :: "call list \<Rightarrow> (rat \<times> int) list list" where
  "segments fig = concat (map segment_of fig)"

fun ylim_of :: "call \<Rightarrow> (int \<times> int) list" where
  "ylim_of (Ylim lo hi) = [(lo, hi)]"
| "ylim_of _ = []"

definition ylims :: "call list \<Rightarrow> (int \<times> int) list" where
  "ylims fig = concat (map ylim_of fig)"

subsection \<open>Datasets\<close>

text \<open>A dataset is valid when every record's genotype is one of the three categories.\<close>

definition valid :: "dataset \<Rightarrow> bool" where
  "valid d = (\<forall>r \<in> set (map snd d). genotype r \<in> set GENOTYPES)"

text \<open>The largest count over all samples and both allele slots.\<close>

definition max_count :: "dataset \<Rightarrow> int" where
  "max_count d = Max (set (concat (map (\<lambda>r. [allele_1_count r, allele_2_count r]) (map snd d))))"

text \<open>The samples of one category, in the order of the dataset.\<close>

definition bucket :: "dataset \<Rightarrow> string \<Rightarrow> sample list" where
  "bucket d g = [r \<leftarrow> map snd d. genotype r = g]"

text \<open>The state in which the script has just loaded the dataset \<open>d\<close> from a file: the new
  \<open>dict\<close> object is at reference 1.\<close>

definition loaded :: "dataset \<Rightarrow> world" where
  "loaded d = snd (read_data (Some ''data.json'') (module_init (\<lambda>_. Inr d)))"

subsection \<open>The calls \<open>create_plot\<close> makes\<close>

text \<open>Appending calls to the current figure of a state that has one.\<close>

definition on_gcf :: "call list \<Rightarrow> world \<Rightarrow> world" where
  "on_gcf cs w = w\<lparr>figures := butlast (figures w) @ [last (figures w) @ cs]\<rparr>"

definition new_figure :: "world \<Rightarrow> world" where
  "new_figure w = w\<lparr>figures := figures w @ [[Figure (10, 10)]]\<rparr>"

text \<open>What the plotting loop draws for the category at index \<open>i\<close>, what the legend
  statement draws, and what follows the axis limits.\<close>

definition genotype_calls :: "nat \<Rightarrow> string \<Rightarrow> sample list \<Rightarrow> call list" where
  "genotype_calls i colour data =
     [Scatter (replicate (length data) (2 * of_nat i - 1 / 2)) (map allele_1_count data)
        colour ''o'' 100,
      Scatter (replicate (length data) (2 * of_nat i + 1 / 2)) (map allele_2_count data)
        colour ''x'' 100]
     @ map (\<lambda>r. Plot [2 * of_nat i - 1 / 2, 2 * of_nat i + 1 / 2]
                    [allele_1_count r, allele_2_count r] colour) data"

definition data_calls :: "dataset \<Rightarrow> call list" where
  "data_calls d =
     genotype_calls 0 ''blue'' (bucket d ''hom_ref'') @
     genotype_calls 1 ''orange'' (bucket d ''het'') @
     genotype_calls 2 ''red'' (bucket d ''hom_alt'')"

definition legend_calls :: "call list" where
  "legend_calls =
     [Scatter [] [] ''black'' ''o'' 100, Scatter [] [] ''black'' ''x'' 100,
      Legend [Scatter [] [] ''black'' ''o'' 100, Scatter [] [] ''black'' ''x'' 100]
        [''Allele 1'', ''Allele 2''] ''upper left'' 14]"

definition finishing_calls :: "call list" where
  "finishing_calls =
     [Text 0 (- 1) (''Homozygous'' @ [CHR 0x0A] @ ''reference'') ''blue''
        ''center'' ''top'' 10 ''bold'',
      Text 2 (- 1) ''Heterozygous'' ''orange'' ''center'' ''top'' 10 ''bold'',
      Text 4 (- 1) (''Homozygous'' @ [CHR 0x0A] @ ''alternate'') ''red''
        ''center'' ''top'' 10 ''bold'',
      Xlabel ''Genotype'' 14 30, Ylabel ''Allele Count'' 14,
      Title ''Allele Counts by Genotype'' 20, Set_xticks [], Set_xticklabels [],
      Spine_set_visible ''top'' False, Spine_set_visible ''right'' False,
      Set_facecolor ''#EAEAF2'', Grid ''white'']"

text \<open>The largest of the lists \<open>[allele_1_count, allele_2_count]\<close> of a dataset in the
  lexicographic order, and the larger of its two entries plus 10.\<close>

definition largest_pair :: "dataset \<Rightarrow> int list" where
  "largest_pair d = Max (set (map (\<lambda>r. [allele_1_count r, allele_2_count r]) (map snd d)))"

definition ylim_upper :: "dataset \<Rightarrow> int" where
  "ylim_upper d = Max (set (largest_pair d)) + 10"

text \<open>A statement that only draws: it leaves the store and the written files as they are
  and closes no figure.\<close>

definition only_draws :: "'a py \<Rightarrow> bool" where
  "only_draws m =
     (\<forall>w. heap (snd (m w)) = heap w \<and> files (snd (m w)) = files w \<and>
          (figures w \<noteq> [] \<longrightarrow> figures (snd (m w)) \<noteq> []))"

named_theorems only_draws_intros

text \<open>A file system on which no path can be opened.\<close>

definition no_files :: "string \<Rightarrow> error + dataset" where
  "no_files p = Inl (OSError p)"

section \<open>Running the script\<close>

lemmas py_defs = py_return_def py_raise_def py_bind_def py_then_def

lemma on_gcf_on_gcf: "on_gcf bs (on_gcf as w) = on_gcf (as @ bs) w"
  by (simp add: on_gcf_def)

lemma on_gcf_Nil: "figures w \<noteq> [] \<Longrightarrow> on_gcf [] w = w"
  by (simp add: on_gcf_def)

lemma figures_on_gcf: "figures (on_gcf cs w) \<noteq> []"
  by (simp add: on_gcf_def)

lemma heap_on_gcf: "heap (on_gcf cs w) = heap w"
  by (simp add: on_gcf_def)

lemma plt_call_run: "figures w \<noteq> [] \<Longrightarrow> plt_call c w = (Inr (), on_gcf [c] w)"
  by (simp add: plt_call_def gcf_add_def on_gcf_def)

lemma plt_scatter_run:
  "figures w \<noteq> [] \<Longrightarrow>
   plt_scatter xs ys c m s w = (Inr (Scatter xs ys c m s), on_gcf [Scatter xs ys c m s] w)"
  by (simp add: plt_scatter_def py_defs plt_call_run)

lemma getitem_Some: "map_of d k = Some v \<Longrightarrow> getitem d k w = (Inr v, w)"
  by (simp add: getitem_def py_defs)

lemma counts_getitem_run:
  "wf_dict (heap w counts) \<Longrightarrow> (k, v) \<in> set (heap w counts) \<Longrightarrow>
   counts_getitem counts k w = (Inr v, w)"
  by (simp add: counts_getitem_def wf_dict_def getitem_Some)

lemma bucket_of_run:
  "wf_dict (heap w counts) \<Longrightarrow> set ps \<subseteq> set (heap w counts) \<Longrightarrow>
   bucket_of counts g (map fst ps) w = (Inr [r \<leftarrow> map snd ps. genotype r = g], w)"
proof (induction ps)
  case Nil
  then show ?case by (simp add: py_defs)
next
  case (Cons p ps)
  obtain k v where p: "p = (k, v)" by (cases p)
  with Cons.prems have get: "counts_getitem counts k w = (Inr v, w)"
    by (simp add: counts_getitem_run)
  from Cons have rest: "bucket_of counts g (map fst ps) w = (Inr [r \<leftarrow> map snd ps. genotype r = g], w)"
    by simp
  show ?case by (simp add: p py_defs get rest)
qed

lemma py_comprehension_pure:
  "(\<And>x. x \<in> set xs \<Longrightarrow> f x w = (Inr (h x), w)) \<Longrightarrow>
   py_comprehension f xs w = (Inr (map h xs), w)"
  by (induction xs) (simp_all add: py_defs)

lemma data_by_genotype_run:
  assumes "wf_dict (heap w counts)"
  shows "data_by_genotype counts w =
    (Inr (map (\<lambda>g. (g, [r \<leftarrow> map snd (heap w counts). genotype r = g])) GENOTYPES), w)"
  unfolding data_by_genotype_def
  by (rule py_comprehension_pure)
     (simp add: py_defs counts_keys_def bucket_of_run [OF assms subset_refl])

lemma connect_run:
  assumes "figures w \<noteq> []" "map_of GENOTYPE_COLOURS g = Some colour"
  shows "py_for (zip (replicate (length data) a) (zip (replicate (length data) b)
            (zip (map allele_1_count data) (map allele_2_count data)))) (connect_points g) w =
         (Inr (), on_gcf (map (\<lambda>r. Plot [a, b] [allele_1_count r, allele_2_count r] colour) data) w)"
  using assms(1)
proof (induction data arbitrary: w)
  case Nil
  then show ?case by (simp add: py_defs on_gcf_Nil)
next
  case (Cons r data)
  have step: "connect_points g (a, b, allele_1_count r, allele_2_count r) w =
      (Inr (), on_gcf [Plot [a, b] [allele_1_count r, allele_2_count r] colour] w)"
    using Cons.prems assms(2) by (simp add: connect_points_def py_defs getitem_Some plt_call_run)
  show ?case
    by (simp add: py_defs step Cons.IH [OF figures_on_gcf] on_gcf_on_gcf)
qed

lemma plot_genotype_run:
  assumes "figures w \<noteq> []" "map_of GENOTYPE_COLOURS g = Some colour"
    and "map_of by_genotype g = Some data"
  shows "plot_genotype by_genotype (i, g) w = (Inr (), on_gcf (genotype_calls i colour data) w)"
proof -
  have m1: "map_of ALLELE_MARKERS ''allele_1'' = Some ''o''"
    and m2: "map_of ALLELE_MARKERS ''allele_2'' = Some ''x''"
    by (simp_all add: ALLELE_MARKERS_def)
  show ?thesis
    unfolding plot_genotype_def
    by (simp add: py_defs Let_def getitem_Some [OF assms(3)] getitem_Some [OF assms(2)]
        getitem_Some [OF m1] getitem_Some [OF m2] plt_scatter_run assms(1) figures_on_gcf
        connect_run [OF figures_on_gcf assms(2)] on_gcf_on_gcf genotype_calls_def GENOTYPE_SPACING_def
        mult.commute)
qed

lemma plot_loop_run:
  assumes "figures w \<noteq> []"
  shows "py_for (enumerate 0 GENOTYPES)
           (plot_genotype (map (\<lambda>g. (g, [r \<leftarrow> map snd d. genotype r = g])) GENOTYPES)) w =
         (Inr (), on_gcf (data_calls d) w)"
proof -
  let ?bg = "map (\<lambda>g. (g, [r \<leftarrow> map snd d. genotype r = g])) GENOTYPES"
  have c: "map_of GENOTYPE_COLOURS ''hom_ref'' = Some ''blue''"
    "map_of GENOTYPE_COLOURS ''het'' = Some ''orange''"
    "map_of GENOTYPE_COLOURS ''hom_alt'' = Some ''red''"
    by (simp_all add: GENOTYPE_COLOURS_def)
  have b: "map_of ?bg ''hom_ref'' = Some (bucket d ''hom_ref'')"
    "map_of ?bg ''het'' = Some (bucket d ''het'')"
    "map_of ?bg ''hom_alt'' = Some (bucket d ''hom_alt'')"
    by (simp_all add: GENOTYPES_def bucket_def)
  have e: "enumerate 0 GENOTYPES = [(0, ''hom_ref''), (1, ''het''), (2, ''hom_alt'')]"
    by (simp add: GENOTYPES_def)
  show ?thesis
    unfolding e
    by (simp add: py_defs plot_genotype_run [OF _ c(1) b(1)] plot_genotype_run [OF _ c(2) b(2)]
        plot_genotype_run [OF _ c(3) b(3)] assms figures_on_gcf on_gcf_on_gcf data_calls_def)
qed

lemma legend_run:
  assumes "figures w \<noteq> []"
  shows "py_bind (py_comprehension (\<lambda>marker. plt_scatter [] [] ''black'' marker 100)
                   (map snd ALLELE_MARKERS))
           (\<lambda>handles. py_then (plt_call (Legend handles [''Allele 1'', ''Allele 2'']
                                            ''upper left'' 14)) k) w =
         k (on_gcf legend_calls w)"
  by (simp add: ALLELE_MARKERS_def py_defs plt_scatter_run plt_call_run assms figures_on_gcf
      on_gcf_on_gcf legend_calls_def)

lemma py_max_iterable_run:
  "xs \<noteq> [] \<Longrightarrow> py_max_iterable xs w = (Inr (Max (set xs)), w)"
proof (cases xs)
  case Nil
  assume "xs \<noteq> []"
  with Nil show ?thesis by simp
next
  case (Cons x ys)
  have step: "(\<lambda>item largest. if largest < item then item else largest) =
              (max :: 'a \<Rightarrow> 'a \<Rightarrow> 'a)"
    by (auto simp: fun_eq_iff max_def)
  show ?thesis
    by (simp add: Cons py_return_def step Max.set_eq_fold del: set_simps)
qed

lemma largest_pair_shape:
  assumes "d \<noteq> []"
  shows "\<exists>r \<in> set (map snd d). largest_pair d = [allele_1_count r, allele_2_count r]"
proof -
  let ?S = "set (map (\<lambda>r. [allele_1_count r, allele_2_count r]) (map snd d))"
  from assms have "?S \<noteq> {}" by simp
  then have "Max ?S \<in> ?S" by (intro Max_in) simp
  then show ?thesis unfolding largest_pair_def by auto
qed

lemma maxima_run:
  assumes "heap w counts \<noteq> []"
  shows "py_bind (counts_values counts)
     (\<lambda>samples. py_bind (py_max_iterable
        (map (\<lambda>sample. [allele_1_count sample, allele_2_count sample]) samples))
        (\<lambda>largest. py_bind (py_max_iterable largest) k)) w =
   k (Max (set (largest_pair (heap w counts)))) w"
proof -
  let ?pairs = "map (\<lambda>sample. [allele_1_count sample, allele_2_count sample])
                  (map snd (heap w counts))"
  from assms have ne: "?pairs \<noteq> []" by simp
  have inner: "py_max_iterable ?pairs w = (Inr (largest_pair (heap w counts)), w)"
    using py_max_iterable_run [OF ne] by (simp add: largest_pair_def)
  from largest_pair_shape [OF assms] have "largest_pair (heap w counts) \<noteq> []" by auto
  then have outer: "py_max_iterable (largest_pair (heap w counts)) w =
      (Inr (Max (set (largest_pair (heap w counts)))), w)"
    by (rule py_max_iterable_run)
  show ?thesis
    apply (subst py_bind_def)
    apply (simp only: counts_values_def prod.case sum.case)
    apply (subst py_bind_def)
    apply (simp only: inner prod.case sum.case)
    apply (subst py_bind_def)
    apply (simp only: outer prod.case sum.case)
    done
qed

lemma maxima_empty_run:
  assumes "heap w counts = []"
  shows "py_bind (counts_values counts)
     (\<lambda>samples. py_bind (py_max_iterable
        (map (\<lambda>sample. [allele_1_count sample, allele_2_count sample]) samples))
        (\<lambda>largest. py_bind (py_max_iterable largest) k)) w =
   (Inl ValueError_max_empty_sequence, w)"
  by (simp add: py_bind_def counts_values_def assms py_raise_def)

lemma finishing_run:
  assumes "figures w \<noteq> []"
  shows "py_then (py_for (enumerate 0 GENOTYPES) label_genotype) make_pretty w =
         (Inr (), on_gcf finishing_calls w)"
proof -
  have e: "enumerate 0 GENOTYPES = [(0, ''hom_ref''), (1, ''het''), (2, ''hom_alt'')]"
    by (simp add: GENOTYPES_def)
  show ?thesis
    unfolding e
    by (simp add: py_defs label_genotype_def make_pretty_def getitem_def GENOTYPE_LABELS_def
        GENOTYPE_COLOURS_def GENOTYPE_SPACING_def plt_call_run assms figures_on_gcf
        on_gcf_on_gcf finishing_calls_def)
qed

lemma tail_run:
  assumes "figures w \<noteq> []"
  shows "py_then (plt_call (Ylim 0 u))
           (py_then (py_for (enumerate 0 GENOTYPES) label_genotype) make_pretty) w =
         (Inr (), on_gcf (Ylim 0 u # finishing_calls) w)"
  apply (subst py_then_def)
  apply (subst py_bind_def)
  apply (simp add: plt_call_run [OF assms] finishing_run [OF figures_on_gcf] on_gcf_on_gcf)
  done

lemma create_plot_run:
  assumes "wf_dict (heap w counts)"
  shows "create_plot counts w =
    (if heap w counts = []
     then (Inl ValueError_max_empty_sequence,
           on_gcf (data_calls (heap w counts) @ legend_calls) (new_figure w))
     else (Inr (), on_gcf (data_calls (heap w counts) @ legend_calls @
                           [Ylim 0 (ylim_upper (heap w counts))] @ finishing_calls)
                     (new_figure w)))"
proof -
  let ?d = "heap w counts"
  let ?w = "on_gcf (data_calls ?d @ legend_calls) (new_figure w)"
  have f: "figures (new_figure w) \<noteq> []" and h: "heap (new_figure w) = heap w"
    by (simp_all add: new_figure_def)
  have wf: "wf_dict (heap (new_figure w) counts)"
    using assms by (simp add: h)
  have start: "plt_figure (10, 10) w = (Inr (), new_figure w)"
    by (simp add: plt_figure_def new_figure_def)
  have group: "data_by_genotype counts (new_figure w) =
      (Inr (map (\<lambda>g. (g, [r \<leftarrow> map snd ?d. genotype r = g])) GENOTYPES), new_figure w)"
    using data_by_genotype_run [OF wf] by (simp add: h)
  have hw: "heap ?w counts = ?d" by (simp add: heap_on_gcf h)
  have "create_plot counts w =
      py_bind (counts_values counts)
        (\<lambda>samples. py_bind (py_max_iterable
           (map (\<lambda>sample. [allele_1_count sample, allele_2_count sample]) samples))
           (\<lambda>largest. py_bind (py_max_iterable largest)
              (\<lambda>max_value. py_then (plt_call (Ylim 0 (max_value + 10)))
                 (py_then (py_for (enumerate 0 GENOTYPES) label_genotype) make_pretty)))) ?w"
    unfolding create_plot_def
    apply (subst py_then_def)
    apply (subst py_bind_def)
    apply (simp only: start prod.case sum.case)
    apply (subst py_bind_def)
    apply (simp only: group prod.case sum.case)
    apply (subst py_then_def)
    apply (subst py_bind_def)
    apply (simp only: plot_loop_run [OF f] prod.case sum.case)
    apply (subst legend_run [OF figures_on_gcf])
    apply (simp only: on_gcf_on_gcf)
    done
  also have "\<dots> =
    (if ?d = [] then (Inl ValueError_max_empty_sequence, ?w)
     else (Inr (), on_gcf (data_calls ?d @ legend_calls @ [Ylim 0 (ylim_upper ?d)] @
                           finishing_calls) (new_figure w)))"
  proof (cases "?d = []")
    case True
    then have e: "heap ?w counts = []" by (simp add: heap_on_gcf h)
    show ?thesis
      apply (subst maxima_empty_run [OF e])
      apply (simp add: True)
      done
  next
    case False
    then have ne: "heap ?w counts \<noteq> []" by (simp add: heap_on_gcf h)
    show ?thesis
      apply (subst maxima_run [OF ne])
      apply (simp add: False hw tail_run figures_on_gcf on_gcf_on_gcf ylim_upper_def)
      done
  qed
  finally show ?thesis .
qed

lemma gcf_on_gcf_new: "gcf (on_gcf cs (new_figure w)) = Figure (10, 10) # cs"
  by (simp add: gcf_def on_gcf_def new_figure_def)

lemma zip_replicate_map:
  "zip (replicate (length xs) a) (map f xs) = map (\<lambda>r. (a, f r)) xs"
  by (induction xs) simp_all

lemma points_genotype_o:
  "scatter_points ''o'' (genotype_calls i c data) =
   map (\<lambda>r. (2 * of_nat i - 1 / 2, allele_1_count r)) data"
proof -
  have "concat (map (points_of ''o'')
          (map (\<lambda>r. Plot [2 * of_nat i - 1 / 2, 2 * of_nat i + 1 / 2]
                      [allele_1_count r, allele_2_count r] c) data)) = []"
    by (induction data) simp_all
  then show ?thesis
    by (simp add: scatter_points_def genotype_calls_def zip_replicate_map)
qed

lemma points_genotype_x:
  "scatter_points ''x'' (genotype_calls i c data) =
   map (\<lambda>r. (2 * of_nat i + 1 / 2, allele_2_count r)) data"
proof -
  have "concat (map (points_of ''x'')
          (map (\<lambda>r. Plot [2 * of_nat i - 1 / 2, 2 * of_nat i + 1 / 2]
                      [allele_1_count r, allele_2_count r] c) data)) = []"
    by (induction data) simp_all
  then show ?thesis
    by (simp add: scatter_points_def genotype_calls_def zip_replicate_map)
qed

lemma segments_genotype:
  "segments (genotype_calls i c data) =
   map (\<lambda>r. [(2 * of_nat i - 1 / 2, allele_1_count r), (2 * of_nat i + 1 / 2, allele_2_count r)])
     data"
proof -
  have "concat (map segment_of
          (map (\<lambda>r. Plot [2 * of_nat i - 1 / 2, 2 * of_nat i + 1 / 2]
                      [allele_1_count r, allele_2_count r] c) data)) =
        map (\<lambda>r. [(2 * of_nat i - 1 / 2, allele_1_count r),
                   (2 * of_nat i + 1 / 2, allele_2_count r)]) data"
    by (induction data) simp_all
  then show ?thesis
    by (simp add: segments_def genotype_calls_def)
qed

lemma ylims_genotype: "ylims (genotype_calls i c data) = []"
proof -
  have "concat (map ylim_of
          (map (\<lambda>r. Plot [2 * of_nat i - 1 / 2, 2 * of_nat i + 1 / 2]
                      [allele_1_count r, allele_2_count r] c) data)) = []"
    by (induction data) simp_all
  then show ?thesis
    by (simp add: ylims_def genotype_calls_def)
qed

lemma scatter_points_append:
  "scatter_points m (as @ bs) = scatter_points m as @ scatter_points m bs"
  by (simp add: scatter_points_def)

lemma segments_append: "segments (as @ bs) = segments as @ segments bs"
  by (simp add: segments_def)

lemma ylims_append: "ylims (as @ bs) = ylims as @ ylims bs"
  by (simp add: ylims_def)

lemma scatter_points_Cons:
  "scatter_points m (c # cs) = points_of m c @ scatter_points m cs"
  by (simp add: scatter_points_def)

lemma segments_Cons: "segments (c # cs) = segment_of c @ segments cs"
  by (simp add: segments_def)

lemma ylims_Cons: "ylims (c # cs) = ylim_of c @ ylims cs"
  by (simp add: ylims_def)

lemma observe_legend:
  "scatter_points m legend_calls = []" "segments legend_calls = []" "ylims legend_calls = []"
  by (simp_all add: legend_calls_def scatter_points_def segments_def ylims_def)

lemma observe_finishing:
  "scatter_points m finishing_calls = []" "segments finishing_calls = []"
  "ylims finishing_calls = []"
  by (simp_all add: finishing_calls_def scatter_points_def segments_def ylims_def)

lemma ylims_data: "ylims (data_calls d) = []"
  by (simp add: data_calls_def ylims_append ylims_genotype)

text \<open>What is drawn does not depend on whether the maximum could be computed.\<close>

lemma gcf_create_plot_cases:
  assumes "wf_dict (heap w counts)"
  obtains "gcf (snd (create_plot counts w)) =
             Figure (10, 10) # data_calls (heap w counts) @ legend_calls"
      and "heap w counts = []"
      and "fst (create_plot counts w) = Inl ValueError_max_empty_sequence"
  | "gcf (snd (create_plot counts w)) =
             Figure (10, 10) # data_calls (heap w counts) @ legend_calls @
               [Ylim 0 (ylim_upper (heap w counts))] @ finishing_calls"
      and "heap w counts \<noteq> []" and "fst (create_plot counts w) = Inr ()"
proof (cases "heap w counts = []")
  case True
  with that(1) show ?thesis
    by (simp add: create_plot_run [OF assms] gcf_on_gcf_new)
next
  case False
  with that(2) show ?thesis
    by (simp add: create_plot_run [OF assms] gcf_on_gcf_new)
qed

lemma scatter_points_gcf_o:
  assumes "wf_dict (heap w counts)"
  shows "scatter_points ''o'' (gcf (snd (create_plot counts w))) =
         scatter_points ''o'' (data_calls (heap w counts))"
  using assms
  by (rule gcf_create_plot_cases)
     (simp_all add: scatter_points_Cons scatter_points_append observe_legend observe_finishing)

lemma scatter_points_gcf_x:
  assumes "wf_dict (heap w counts)"
  shows "scatter_points ''x'' (gcf (snd (create_plot counts w))) =
         scatter_points ''x'' (data_calls (heap w counts))"
  using assms
  by (rule gcf_create_plot_cases)
     (simp_all add: scatter_points_Cons scatter_points_append observe_legend observe_finishing)

lemma segments_gcf:
  assumes "wf_dict (heap w counts)"
  shows "segments (gcf (snd (create_plot counts w))) = segments (data_calls (heap w counts))"
  using assms
  by (rule gcf_create_plot_cases)
     (simp_all add: segments_Cons segments_append observe_legend observe_finishing)

lemma bucket_lengths:
  "valid d \<Longrightarrow>
   length (bucket d ''hom_ref'') + length (bucket d ''het'') + length (bucket d ''hom_alt'') =
   length d"
  by (induction d) (auto simp: valid_def GENOTYPES_def bucket_def)


lemma ylim_nonempty:
  assumes "wf_dict (heap w counts)" and "heap w counts \<noteq> []"
  shows "fst (create_plot counts w) = Inr () \<and>
         ylims (gcf (snd (create_plot counts w))) = [(0, ylim_upper (heap w counts))]"
  using assms
  by (simp add: create_plot_run gcf_on_gcf_new ylims_Cons ylims_append ylims_data
      observe_legend observe_finishing)

lemma zip_points_segments:
  "map (\<lambda>(p, q). [p, q]) (zip (map (\<lambda>r. (a, f r)) data) (map (\<lambda>r. (b, g r)) data)) =
   map (\<lambda>r. [(a, f r), (b, g r)]) data"
  by (induction data) simp_all

lemma example_facts:
  "wf_dict (heap (module_init fs) EXAMPLE_DATA_ref)"
  "valid (heap (module_init fs) EXAMPLE_DATA_ref)"
  by (simp_all add: module_init_def EXAMPLE_DATA_def wf_dict_def valid_def GENOTYPES_def)

lemma create_plot_example: "fst (create_plot EXAMPLE_DATA_ref (module_init fs)) = Inr ()"
proof -
  have "heap (module_init fs) EXAMPLE_DATA_ref \<noteq> []"
    by (simp add: module_init_def EXAMPLE_DATA_def)
  from ylim_nonempty [OF example_facts(1) this] show ?thesis by simp
qed

section \<open>The y-axis limits and the failure of the maximum\<close>

lemma ylim_upper_example: "ylim_upper (heap (module_init fs) EXAMPLE_DATA_ref) = 70"
  by (simp add: module_init_def EXAMPLE_DATA_def ylim_upper_def largest_pair_def)

text \<open>The bound line 119 computes never exceeds the maximum count plus 10.\<close>

lemma ylim_upper_le_max_count:
  assumes "d \<noteq> []"
  shows "ylim_upper d \<le> max_count d + 10"
proof -
  let ?all = "set (concat (map (\<lambda>r. [allele_1_count r, allele_2_count r]) (map snd d)))"
  from largest_pair_shape [OF assms] obtain r where r: "r \<in> set (map snd d)"
    and p: "largest_pair d = [allele_1_count r, allele_2_count r]" by blast
  from r have "allele_1_count r \<in> ?all" "allele_2_count r \<in> ?all" by auto
  then have "allele_1_count r \<le> Max ?all" "allele_2_count r \<le> Max ?all"
    by (simp_all del: set_concat)
  then show ?thesis
    by (simp add: ylim_upper_def p max_count_def del: set_concat)
qed

lemma max_count_example: "max_count (heap (module_init fs) EXAMPLE_DATA_ref) = 62"
  by (simp add: module_init_def EXAMPLE_DATA_def max_count_def)

text \<open>
  Claim C1 says that for every non-empty dataset the y-axis upper bound is the maximum
  count over all samples and both allele slots, plus 10. Line 119 takes instead the
  lexicographically largest list \<open>[allele_1_count, allele_2_count]\<close> and the larger of
  its two entries. On \<open>EXAMPLE_DATA\<close> that list is \<open>[60, 54]\<close>, so the upper bound set
  is 70, while the maximum count is 62 (the second count of sample 6) and the claim gives 72.
\<close>

theorem example_ylim_below_maximum:
  "fst (create_plot EXAMPLE_DATA_ref (module_init fs)) = Inr () \<and>
   ylims (gcf (snd (create_plot EXAMPLE_DATA_ref (module_init fs)))) = [(0, 70)] \<and>
   max_count (heap (module_init fs) EXAMPLE_DATA_ref) + 10 = 72"
proof -
  have ne: "heap (module_init fs) EXAMPLE_DATA_ref \<noteq> []"
    by (simp add: module_init_def EXAMPLE_DATA_def)
  from ylim_nonempty [OF example_facts(1) ne] show ?thesis
    by (simp add: ylim_upper_example max_count_example)
qed

text \<open>
  Claim C3: on the empty dataset \<open>create_plot\<close> raises at the maximum of line 119
  (the inner \<open>max\<close> over an empty sequence of samples, a \<open>ValueError\<close>). The last call
  made on the figure is the legend of line 111, and no y-axis limit has been set.
\<close>

theorem empty_dataset_raises_at_max:
  assumes "heap w counts = []"
  shows "fst (create_plot counts w) = Inl ValueError_max_empty_sequence \<and>
         ylims (gcf (snd (create_plot counts w))) = [] \<and>
         last (gcf (snd (create_plot counts w))) =
           Legend [Scatter [] [] ''black'' ''o'' 100, Scatter [] [] ''black'' ''x'' 100]
             [''Allele 1'', ''Allele 2''] ''upper left'' 14"
proof -
  have wf: "wf_dict (heap w counts)" by (simp add: assms wf_dict_def)
  have "last (Figure (10, 10) # data_calls [] @ legend_calls) = last legend_calls"
    by (simp add: legend_calls_def)
  then show ?thesis
    by (simp add: create_plot_run [OF wf] assms gcf_on_gcf_new ylims_Cons
        ylims_append ylims_data observe_legend)
       (simp add: legend_calls_def)
qed

theorem empty_dataset_raises_at_max_witness:
  "heap (loaded []) 1 = [] \<and>
   fst (create_plot 1 (loaded [])) = Inl ValueError_max_empty_sequence \<and>
   ylims (gcf (snd (create_plot 1 (loaded [])))) = [] \<and>
   last (gcf (snd (create_plot 1 (loaded [])))) =
     Legend [Scatter [] [] ''black'' ''o'' 100, Scatter [] [] ''black'' ''x'' 100]
       [''Allele 1'', ''Allele 2''] ''upper left'' 14"
proof -
  have h: "heap (loaded []) 1 = []"
    by (simp add: loaded_def read_data_def module_init_def)
  from empty_dataset_raises_at_max [OF h] h show ?thesis by blast
qed

text \<open>
  Claim C10: on every non-empty dataset \<open>create_plot\<close> gets past the maximum of line 119
  and returns, the y-axis limits are set exactly once, and the lower bound is 0.
\<close>

theorem ylim_lower_bound_zero:
  assumes "wf_dict (heap w counts)" and "heap w counts \<noteq> []"
  shows "fst (create_plot counts w) = Inr () \<and>
         map fst (ylims (gcf (snd (create_plot counts w)))) = [0]"
  using ylim_nonempty [OF assms] by simp

theorem ylim_lower_bound_zero_witness:
  "wf_dict (heap (loaded
      [(''1'', \<lparr>genotype = ''het'', allele_1_count = 4, allele_2_count = 40\<rparr>)]) 1) \<and>
   heap (loaded
      [(''1'', \<lparr>genotype = ''het'', allele_1_count = 4, allele_2_count = 40\<rparr>)]) 1 \<noteq> [] \<and>
   fst (create_plot 1 (loaded
      [(''1'', \<lparr>genotype = ''het'', allele_1_count = 4, allele_2_count = 40\<rparr>)])) = Inr () \<and>
   map fst (ylims (gcf (snd (create_plot 1 (loaded
      [(''1'', \<lparr>genotype = ''het'', allele_1_count = 4, allele_2_count = 40\<rparr>)]))))) = [0]"
proof -
  let ?w = "loaded [(''1'', \<lparr>genotype = ''het'', allele_1_count = 4, allele_2_count = 40\<rparr>)]"
  have h: "heap ?w 1 = [(''1'', \<lparr>genotype = ''het'', allele_1_count = 4, allele_2_count = 40\<rparr>)]"
    by (simp add: loaded_def read_data_def module_init_def)
  have wf: "wf_dict (heap ?w 1)" unfolding h by (simp add: wf_dict_def)
  have ne: "heap ?w 1 \<noteq> []" unfolding h by simp
  from ylim_lower_bound_zero [OF wf ne] wf ne show ?thesis by blast
qed

section \<open>What is plotted\<close>

text \<open>
  Claim C4: for every valid dataset the number of plotted point-pairs equals the number of
  samples. The figure \<open>create_plot\<close> draws holds as many connecting segments, as many
  allele-1 points (marker o) and as many allele-2 points (marker x) as the dataset has
  samples, and the segments join the allele-1 and allele-2 points pairwise, in order. This
  holds of the figure whether or not the later maximum of line 119 raises.
\<close>

theorem point_pairs_equal_samples:
  assumes "wf_dict (heap w counts)" and "valid (heap w counts)"
  shows "length (segments (gcf (snd (create_plot counts w)))) = length (heap w counts) \<and>
         length (scatter_points ''o'' (gcf (snd (create_plot counts w)))) =
           length (heap w counts) \<and>
         length (scatter_points ''x'' (gcf (snd (create_plot counts w)))) =
           length (heap w counts) \<and>
         segments (gcf (snd (create_plot counts w))) =
           map (\<lambda>(p, q). [p, q])
             (zip (scatter_points ''o'' (gcf (snd (create_plot counts w))))
                  (scatter_points ''x'' (gcf (snd (create_plot counts w)))))"
proof -
  let ?d = "heap w counts"
  note obs = segments_gcf [OF assms(1)] scatter_points_gcf_o [OF assms(1)]
    scatter_points_gcf_x [OF assms(1)]
  note parts = data_calls_def segments_append scatter_points_append segments_genotype
    points_genotype_o points_genotype_x
  have n: "length (segments (data_calls ?d)) = length ?d"
    "length (scatter_points ''o'' (data_calls ?d)) = length ?d"
    "length (scatter_points ''x'' (data_calls ?d)) = length ?d"
    using bucket_lengths [OF assms(2)] by (simp_all add: parts)
  have pairs: "segments (data_calls ?d) =
      map (\<lambda>(p, q). [p, q])
        (zip (scatter_points ''o'' (data_calls ?d)) (scatter_points ''x'' (data_calls ?d)))"
    by (simp add: parts zip_append zip_points_segments)
  show ?thesis
    unfolding obs using n pairs by simp
qed

theorem point_pairs_equal_samples_witness:
  "wf_dict (heap (module_init no_files) EXAMPLE_DATA_ref) \<and>
   valid (heap (module_init no_files) EXAMPLE_DATA_ref) \<and>
   length (segments (gcf (snd (create_plot EXAMPLE_DATA_ref (module_init no_files))))) = 6 \<and>
   length (scatter_points ''o'' (gcf (snd (create_plot EXAMPLE_DATA_ref (module_init no_files)))))
     = 6 \<and>
   length (scatter_points ''x'' (gcf (snd (create_plot EXAMPLE_DATA_ref (module_init no_files)))))
     = 6"
proof -
  have n: "length (heap (module_init no_files) EXAMPLE_DATA_ref) = 6"
    by (simp add: module_init_def EXAMPLE_DATA_def)
  from point_pairs_equal_samples [OF example_facts, of no_files] example_facts [of no_files] n
  show ?thesis by simp
qed

text \<open>
  Claim C5: for every valid dataset the grouping step (lines 84 to 87) returns one bucket
  per category of \<open>GENOTYPES\<close>, in that order and possibly empty; the bucket of a
  category is the list of the records of that genotype in the order of the input mapping
  (a filter of the values, hence stable); every sample is in the bucket of its own genotype
  and in no other; and the bucket sizes add up to the number of samples.
\<close>

theorem grouping_partitions_samples:
  assumes "wf_dict (heap w counts)" and "valid (heap w counts)"
  shows "data_by_genotype counts w =
           (Inr (map (\<lambda>g. (g, [r \<leftarrow> map snd (heap w counts). genotype r = g])) GENOTYPES), w) \<and>
         distinct GENOTYPES \<and>
         (\<forall>r \<in> set (map snd (heap w counts)).
            [g \<leftarrow> GENOTYPES. r \<in> set [r' \<leftarrow> map snd (heap w counts). genotype r' = g]] =
            [genotype r]) \<and>
         sum_list (map (\<lambda>g. length [r \<leftarrow> map snd (heap w counts). genotype r = g]) GENOTYPES) =
           length (heap w counts)"
proof -
  have one: "[g \<leftarrow> GENOTYPES. r \<in> set [r' \<leftarrow> map snd (heap w counts). genotype r' = g]] =
             [genotype r]"
    if "r \<in> set (map snd (heap w counts))" for r
  proof -
    from that assms(2) have "genotype r \<in> set GENOTYPES" unfolding valid_def by blast
    with that show ?thesis by (auto simp: GENOTYPES_def)
  qed
  have total: "sum_list (map (\<lambda>g. length [r \<leftarrow> map snd (heap w counts). genotype r = g])
                  GENOTYPES) = length (heap w counts)"
    using bucket_lengths [OF assms(2)] by (simp add: GENOTYPES_def bucket_def)
  have "distinct GENOTYPES" by (simp add: GENOTYPES_def)
  with one total data_by_genotype_run [OF assms(1)] show ?thesis by blast
qed

theorem grouping_partitions_samples_witness:
  "wf_dict (heap (module_init no_files) EXAMPLE_DATA_ref) \<and>
   valid (heap (module_init no_files) EXAMPLE_DATA_ref) \<and>
   map (\<lambda>(g, b). (g, map allele_1_count b))
     (projr (fst (data_by_genotype EXAMPLE_DATA_ref (module_init no_files)))) =
     [(''hom_ref'', [2, 3]), (''het'', [4, 5]), (''hom_alt'', [60, 58])]"
proof -
  from grouping_partitions_samples [OF example_facts, of no_files]
  have "data_by_genotype EXAMPLE_DATA_ref (module_init no_files) =
      (Inr (map (\<lambda>g. (g, [r \<leftarrow> map snd (heap (module_init no_files) EXAMPLE_DATA_ref).
                             genotype r = g])) GENOTYPES), module_init no_files)"
    by blast
  then show ?thesis
    using example_facts [of no_files]
    by (simp add: module_init_def EXAMPLE_DATA_def GENOTYPES_def)
qed

text \<open>
  Claim C6: on \<open>EXAMPLE_DATA\<close> the grouping step yields exactly two samples in each of
  the categories hom_ref, het and hom_alt.
\<close>

theorem example_groups_two_each:
  "fst (data_by_genotype EXAMPLE_DATA_ref (module_init fs)) =
     Inr [(''hom_ref'',
            [\<lparr>genotype = ''hom_ref'', allele_1_count = 2, allele_2_count = 4\<rparr>,
             \<lparr>genotype = ''hom_ref'', allele_1_count = 3, allele_2_count = 6\<rparr>]),
          (''het'',
            [\<lparr>genotype = ''het'', allele_1_count = 4, allele_2_count = 40\<rparr>,
             \<lparr>genotype = ''het'', allele_1_count = 5, allele_2_count = 39\<rparr>]),
          (''hom_alt'',
            [\<lparr>genotype = ''hom_alt'', allele_1_count = 60, allele_2_count = 54\<rparr>,
             \<lparr>genotype = ''hom_alt'', allele_1_count = 58, allele_2_count = 62\<rparr>])] \<and>
   map (\<lambda>(g, b). (g, length b))
     (projr (fst (data_by_genotype EXAMPLE_DATA_ref (module_init fs)))) =
     [(''hom_ref'', 2), (''het'', 2), (''hom_alt'', 2)]"
  by (simp add: data_by_genotype_run [OF example_facts(1)])
     (simp add: module_init_def EXAMPLE_DATA_def GENOTYPES_def)

lemma filter_fst_map:
  "[p \<leftarrow> map (\<lambda>r. (a, f r)) data. fst p = b] = (if a = b then map (\<lambda>r. (a, f r)) data else [])"
  by (induction data) simp_all

lemma filter_xs_map:
  "[s \<leftarrow> map (\<lambda>r. [(a, f r), (b, g r)]) data. map fst s = [a', b']] =
   (if a = a' \<and> b = b' then map (\<lambda>r. [(a, f r), (b, g r)]) data else [])"
  by (induction data) simp_all

text \<open>
  Claim C7: for the category at index \<open>i\<close> of \<open>GENOTYPES\<close>, the allele-1 points at
  x = 2 i - 1/2 are exactly the allele-1 counts of the samples of that category, the
  allele-2 points at x = 2 i + 1/2 are exactly their allele-2 counts, and the segments
  between these two x positions are exactly the segments joining the two counts of each
  such sample; so every sample of the category is drawn at the same two x positions.
\<close>

theorem category_x_positions:
  assumes "wf_dict (heap w counts)" and "i < length GENOTYPES"
  shows "[p \<leftarrow> scatter_points ''o'' (gcf (snd (create_plot counts w))). fst p = 2 * of_nat i - 1 / 2] =
           map (\<lambda>r. (2 * of_nat i - 1 / 2, allele_1_count r))
             [r \<leftarrow> map snd (heap w counts). genotype r = GENOTYPES ! i] \<and>
         [p \<leftarrow> scatter_points ''x'' (gcf (snd (create_plot counts w))). fst p = 2 * of_nat i + 1 / 2] =
           map (\<lambda>r. (2 * of_nat i + 1 / 2, allele_2_count r))
             [r \<leftarrow> map snd (heap w counts). genotype r = GENOTYPES ! i] \<and>
         [s \<leftarrow> segments (gcf (snd (create_plot counts w))).
            map fst s = [2 * of_nat i - 1 / 2, 2 * of_nat i + 1 / 2]] =
           map (\<lambda>r. [(2 * of_nat i - 1 / 2, allele_1_count r),
                      (2 * of_nat i + 1 / 2, allele_2_count r)])
             [r \<leftarrow> map snd (heap w counts). genotype r = GENOTYPES ! i]"
proof -
  note obs = segments_gcf [OF assms(1)] scatter_points_gcf_o [OF assms(1)]
    scatter_points_gcf_x [OF assms(1)]
  note parts = data_calls_def segments_append scatter_points_append segments_genotype
    points_genotype_o points_genotype_x filter_fst_map filter_xs_map bucket_def
  from assms(2) consider "i = 0" | "i = 1" | "i = 2"
    by (auto simp: GENOTYPES_def less_Suc_eq numeral_3_eq_3)
  then show ?thesis
  proof cases
    case 1
    then show ?thesis unfolding obs by (simp add: parts GENOTYPES_def)
  next
    case 2
    then show ?thesis unfolding obs by (simp add: parts GENOTYPES_def)
  next
    case 3
    then show ?thesis unfolding obs by (simp add: parts GENOTYPES_def)
  qed
qed

theorem category_x_positions_witness:
  "wf_dict (heap (module_init no_files) EXAMPLE_DATA_ref) \<and> 1 < length GENOTYPES \<and>
   [p \<leftarrow> scatter_points ''o'' (gcf (snd (create_plot EXAMPLE_DATA_ref (module_init no_files)))).
      fst p = 3 / 2] = [(3 / 2, 4), (3 / 2, 5)] \<and>
   [p \<leftarrow> scatter_points ''x'' (gcf (snd (create_plot EXAMPLE_DATA_ref (module_init no_files)))).
      fst p = 5 / 2] = [(5 / 2, 40), (5 / 2, 39)] \<and>
   [s \<leftarrow> segments (gcf (snd (create_plot EXAMPLE_DATA_ref (module_init no_files)))).
      map fst s = [3 / 2, 5 / 2]] = [[(3 / 2, 4), (5 / 2, 40)], [(3 / 2, 5), (5 / 2, 39)]]"
proof -
  have i: "1 < length GENOTYPES" by (simp add: GENOTYPES_def)
  have d: "[r \<leftarrow> map snd (heap (module_init no_files) EXAMPLE_DATA_ref).
              genotype r = GENOTYPES ! 1] =
           [\<lparr>genotype = ''het'', allele_1_count = 4, allele_2_count = 40\<rparr>,
            \<lparr>genotype = ''het'', allele_1_count = 5, allele_2_count = 39\<rparr>]"
    by (simp add: module_init_def EXAMPLE_DATA_def GENOTYPES_def)
  from category_x_positions [OF example_facts(1) i, of no_files, unfolded d] i
    example_facts(1) [of no_files]
  show ?thesis by simp
qed

section \<open>The dataset is only read\<close>

text \<open>Every statement of \<open>create_plot\<close> only draws, and so does their composition.\<close>

lemma only_draws_return [only_draws_intros]: "only_draws (py_return x)"
  by (simp add: only_draws_def py_return_def)

lemma only_draws_raise [only_draws_intros]: "only_draws (py_raise e)"
  by (simp add: only_draws_def py_raise_def)

lemma only_draws_bind [only_draws_intros]:
  assumes "only_draws m" and "\<And>x. only_draws (f x)"
  shows "only_draws (py_bind m f)"
  unfolding only_draws_def
proof
  fix w
  obtain r w' where run: "m w = (r, w')" by (cases "m w")
  from assms(1) have m: "heap w' = heap w" "files w' = files w"
    "figures w \<noteq> [] \<longrightarrow> figures w' \<noteq> []"
    unfolding only_draws_def by (metis run snd_conv)+
  show "heap (snd (py_bind m f w)) = heap w \<and> files (snd (py_bind m f w)) = files w \<and>
        (figures w \<noteq> [] \<longrightarrow> figures (snd (py_bind m f w)) \<noteq> [])"
  proof (cases r)
    case (Inl e)
    with run m show ?thesis by (simp add: py_bind_def)
  next
    case (Inr x)
    from assms(2) [of x] have "heap (snd (f x w')) = heap w'" "files (snd (f x w')) = files w'"
      "figures w' \<noteq> [] \<longrightarrow> figures (snd (f x w')) \<noteq> []"
      unfolding only_draws_def by blast+
    with Inr run m show ?thesis by (simp add: py_bind_def)
  qed
qed

lemma only_draws_then [only_draws_intros]:
  "only_draws m \<Longrightarrow> only_draws n \<Longrightarrow> only_draws (py_then m n)"
  by (simp add: py_then_def only_draws_bind)

lemma only_draws_for [only_draws_intros]:
  "(\<And>x. only_draws (body x)) \<Longrightarrow> only_draws (py_for xs body)"
  by (induction xs) (simp_all add: only_draws_intros)

lemma only_draws_comprehension [only_draws_intros]:
  "(\<And>x. only_draws (f x)) \<Longrightarrow> only_draws (py_comprehension f xs)"
  by (induction xs) (simp_all add: only_draws_intros)

lemma only_draws_getitem [only_draws_intros]: "only_draws (getitem d k)"
  by (cases "map_of d k") (simp_all add: getitem_def only_draws_intros)

lemma only_draws_counts_getitem [only_draws_intros]: "only_draws (counts_getitem counts k)"
proof -
  have "heap (snd (counts_getitem counts k w)) = heap w \<and>
        files (snd (counts_getitem counts k w)) = files w \<and>
        (figures w \<noteq> [] \<longrightarrow> figures (snd (counts_getitem counts k w)) \<noteq> [])" for w
    using only_draws_getitem [of "heap w counts" k]
    by (simp add: counts_getitem_def only_draws_def)
  then show ?thesis by (simp add: only_draws_def)
qed

lemma only_draws_counts_keys [only_draws_intros]: "only_draws (counts_keys counts)"
  by (simp add: only_draws_def counts_keys_def)

lemma only_draws_counts_values [only_draws_intros]: "only_draws (counts_values counts)"
  by (simp add: only_draws_def counts_values_def)

lemma only_draws_max_iterable [only_draws_intros]: "only_draws (py_max_iterable xs)"
  by (cases xs) (simp_all add: only_draws_intros)

lemma only_draws_plt_figure [only_draws_intros]: "only_draws (plt_figure s)"
  by (simp add: only_draws_def plt_figure_def)

lemma only_draws_plt_call [only_draws_intros]: "only_draws (plt_call c)"
  by (simp add: only_draws_def plt_call_def gcf_add_def)

lemma only_draws_plt_scatter [only_draws_intros]: "only_draws (plt_scatter xs ys c m s)"
  by (simp add: plt_scatter_def only_draws_intros)

lemma only_draws_bucket_of [only_draws_intros]: "only_draws (bucket_of counts g ks)"
  by (induction ks) (simp_all add: only_draws_intros)

lemma only_draws_data_by_genotype [only_draws_intros]: "only_draws (data_by_genotype counts)"
  unfolding data_by_genotype_def by (intro only_draws_intros)

lemma only_draws_connect_points [only_draws_intros]: "only_draws (connect_points g q)"
  by (cases q) (simp add: connect_points_def only_draws_intros)

lemma only_draws_plot_genotype [only_draws_intros]: "only_draws (plot_genotype bg p)"
  by (cases p) (simp add: plot_genotype_def Let_def only_draws_intros)

lemma only_draws_label_genotype [only_draws_intros]: "only_draws (label_genotype p)"
  by (cases p) (simp add: label_genotype_def only_draws_intros)

lemma only_draws_make_pretty [only_draws_intros]: "only_draws make_pretty"
  unfolding make_pretty_def by (intro only_draws_intros)

lemma only_draws_create_plot: "only_draws (create_plot counts)"
  unfolding create_plot_def by (intro only_draws_intros)

lemma figures_create_plot: "figures (snd (create_plot counts w)) \<noteq> []"
proof -
  have rest: "only_draws n \<Longrightarrow> figures (snd (py_then (plt_figure s) n w)) \<noteq> []" for n :: "unit py" and s
  proof -
    assume "only_draws n"
    then have "figures (w\<lparr>figures := figures w @ [[Figure s]]\<rparr>) \<noteq> [] \<longrightarrow>
      figures (snd (n (w\<lparr>figures := figures w @ [[Figure s]]\<rparr>))) \<noteq> []"
      unfolding only_draws_def by blast
    then show ?thesis by (simp add: py_then_def py_bind_def plt_figure_def)
  qed
  show ?thesis
    unfolding create_plot_def by (rule rest) (intro only_draws_intros)
qed

text \<open>
  Claim C9: \<open>create_plot\<close> never modifies the input dataset. Whatever the state and the
  reference passed, and whether the call returns or raises, the store of \<open>dict\<close> objects
  is the same after the call as before it; in particular the object \<open>counts\<close> refers to.
\<close>

theorem create_plot_leaves_dataset:
  "heap (snd (create_plot counts w)) = heap w \<and>
   heap (snd (create_plot counts w)) counts = heap w counts"
  using only_draws_create_plot [of counts] unfolding only_draws_def by simp

section \<open>Saving the chart\<close>

lemma files_read_data: "files (snd (read_data path w)) = files w"
  by (simp add: read_data_def split: option.split sum.split)

lemma savefig_run:
  "figures w \<noteq> [] \<Longrightarrow>
   plt_savefig fname dpi w = (Inr (), w\<lparr>files := files w @ [(fname, dpi, gcf w)]\<rparr>)"
  by (simp add: plt_savefig_def gcf_def)

lemma main_files:
  "files (snd (main a w)) =
     (case read_data (input_json a) w of
        (Inl e, w1) \<Rightarrow> files w
      | (Inr c, w1) \<Rightarrow>
          if save_plot a \<and> fst (create_plot c w1) = Inr ()
          then files w @ [(''allele_count_graph.png'', 300, gcf (snd (create_plot c w1)))]
          else files w)"
proof -
  obtain r1 w1 where rd: "read_data (input_json a) w = (r1, w1)"
    by (cases "read_data (input_json a) w")
  have f1: "files w1 = files w" using files_read_data [of "input_json a" w] by (simp add: rd)
  show ?thesis
  proof (cases r1)
    case (Inl e)
    with rd f1 show ?thesis by (simp add: main_def py_bind_def)
  next
    case (Inr c)
    obtain r2 w2 where cp: "create_plot c w1 = (r2, w2)"
      by (cases "create_plot c w1")
    have f2: "files w2 = files w1"
      using only_draws_create_plot [of c] unfolding only_draws_def
      by (metis cp snd_conv)
    have g2: "figures w2 \<noteq> []"
      using figures_create_plot [of c w1] by (simp add: cp)
    show ?thesis
    proof (cases r2)
      case (Inl e)
      with Inr rd cp f1 f2 show ?thesis by (simp add: main_def py_bind_def py_then_def)
    next
      case inr: (Inr u)
      with Inr rd cp f1 f2 g2 show ?thesis
        by (simp add: main_def py_bind_def py_then_def py_return_def savefig_run)
    qed
  qed
qed

lemma main_returns:
  assumes "read_data (input_json a) w = (Inr c, w1)" and "fst (create_plot c w1) = Inr ()"
  shows "fst (main a w) = Inr () \<and> gcf (snd (main a w)) = gcf (snd (create_plot c w1))"
proof -
  obtain r2 w2 where cp: "create_plot c w1 = (r2, w2)"
    by (cases "create_plot c w1")
  with assms(2) have r2: "r2 = Inr ()" by simp
  have g2: "figures w2 \<noteq> []"
    using figures_create_plot [of c w1] by (simp add: cp)
  show ?thesis
    using assms(1) cp r2 g2
    by (simp add: main_def py_bind_def py_then_def py_return_def savefig_run gcf_def)
qed

text \<open>
  Claim C8: the rendered chart is written to disk if and only if the save flag is given,
  to the file allele_count_graph.png at dpi 300. For every parsed command line and every
  state, the main block adds to the written files exactly one file of that name and
  resolution, holding the figure \<open>create_plot\<close> drew, when \<open>save_plot\<close> is set and the
  chart was rendered (reading the data and \<open>create_plot\<close> returned); otherwise it writes
  nothing. When the data read is a non-empty dataset the chart is always rendered: the
  main block returns, the figure held in memory is the chart of that dataset, and the
  file is written exactly when \<open>save_plot\<close> is set and holds that chart.
\<close>

theorem chart_saved_iff_flag:
  "files (snd (main a w)) =
     (case read_data (input_json a) w of
        (Inl e, w1) \<Rightarrow> files w
      | (Inr c, w1) \<Rightarrow>
          if save_plot a \<and> fst (create_plot c w1) = Inr ()
          then files w @ [(''allele_count_graph.png'', 300, gcf (snd (create_plot c w1)))]
          else files w) \<and>
   (\<forall>c w1. read_data (input_json a) w = (Inr c, w1) \<and> wf_dict (heap w1 c) \<and> heap w1 c \<noteq> [] \<longrightarrow>
      fst (main a w) = Inr () \<and>
      gcf (snd (main a w)) =
        Figure (10, 10) # data_calls (heap w1 c) @ legend_calls @
          [Ylim 0 (ylim_upper (heap w1 c))] @ finishing_calls \<and>
      files (snd (main a w)) =
        (if save_plot a
         then files w @
           [(''allele_count_graph.png'', 300,
             Figure (10, 10) # data_calls (heap w1 c) @ legend_calls @
               [Ylim 0 (ylim_upper (heap w1 c))] @ finishing_calls)]
         else files w))"
proof (intro conjI allI impI)
  show "files (snd (main a w)) =
     (case read_data (input_json a) w of
        (Inl e, w1) \<Rightarrow> files w
      | (Inr c, w1) \<Rightarrow>
          if save_plot a \<and> fst (create_plot c w1) = Inr ()
          then files w @ [(''allele_count_graph.png'', 300, gcf (snd (create_plot c w1)))]
          else files w)"
    by (rule main_files)
next
  fix c w1
  assume h: "read_data (input_json a) w = (Inr c, w1) \<and> wf_dict (heap w1 c) \<and> heap w1 c \<noteq> []"
  then have rd: "read_data (input_json a) w = (Inr c, w1)" and wf: "wf_dict (heap w1 c)"
    and ne: "heap w1 c \<noteq> []" by simp_all
  have ok: "fst (create_plot c w1) = Inr ()"
    using ylim_nonempty [OF wf ne] by simp
  have chart: "gcf (snd (create_plot c w1)) =
      Figure (10, 10) # data_calls (heap w1 c) @ legend_calls @
        [Ylim 0 (ylim_upper (heap w1 c))] @ finishing_calls"
    using ne by (simp add: create_plot_run [OF wf] gcf_on_gcf_new)
  show "fst (main a w) = Inr ()" using main_returns [OF rd ok] by simp
  show "gcf (snd (main a w)) =
      Figure (10, 10) # data_calls (heap w1 c) @ legend_calls @
        [Ylim 0 (ylim_upper (heap w1 c))] @ finishing_calls"
    using main_returns [OF rd ok] chart by simp
  show "files (snd (main a w)) =
        (if save_plot a
         then files w @
           [(''allele_count_graph.png'', 300,
             Figure (10, 10) # data_calls (heap w1 c) @ legend_calls @
               [Ylim 0 (ylim_upper (heap w1 c))] @ finishing_calls)]
         else files w)"
    using main_files [of a w] rd ok chart by simp
qed

theorem chart_saved_iff_flag_witness:
  "map (\<lambda>(name, dpi, fig). (name, dpi, length (segments fig), ylims fig))
     (files (snd (main \<lparr>input_json = None, save_plot = True\<rparr> (module_init no_files)))) =
     [(''allele_count_graph.png'', 300, 6, [(0, 70)])] \<and>
   files (snd (main \<lparr>input_json = None, save_plot = False\<rparr> (module_init no_files))) = [] \<and>
   fst (main \<lparr>input_json = None, save_plot = False\<rparr> (module_init no_files)) = Inr () \<and>
   length (segments (gcf (snd (main \<lparr>input_json = None, save_plot = False\<rparr>
     (module_init no_files))))) = 6"
proof -
  let ?w = "module_init no_files"
  have rd: "read_data (input_json \<lparr>input_json = None, save_plot = b\<rparr>) ?w =
            (Inr EXAMPLE_DATA_ref, ?w)" for b
    by (simp add: read_data_def)
  have ne: "heap ?w EXAMPLE_DATA_ref \<noteq> []"
    by (simp add: module_init_def EXAMPLE_DATA_def)
  have hyp: "read_data (input_json \<lparr>input_json = None, save_plot = b\<rparr>) ?w =
             (Inr EXAMPLE_DATA_ref, ?w) \<and> wf_dict (heap ?w EXAMPLE_DATA_ref) \<and>
             heap ?w EXAMPLE_DATA_ref \<noteq> []" for b
    using rd example_facts(1) ne by blast
  have segs: "length (segments (Figure (10, 10) # data_calls (heap ?w EXAMPLE_DATA_ref) @
      legend_calls @ Ylim 0 (ylim_upper (heap ?w EXAMPLE_DATA_ref)) # finishing_calls)) = 6"
    using bucket_lengths [OF example_facts(2), of no_files]
    by (simp add: segments_Cons segments_append observe_legend observe_finishing data_calls_def
        segments_genotype) (simp add: module_init_def EXAMPLE_DATA_def)
  have yl: "ylims (Figure (10, 10) # data_calls (heap ?w EXAMPLE_DATA_ref) @
      legend_calls @ Ylim 0 (ylim_upper (heap ?w EXAMPLE_DATA_ref)) # finishing_calls) =
      [(0, 70)]"
    by (simp add: ylims_Cons ylims_append ylims_data observe_legend observe_finishing
        ylim_upper_example)
  note t = chart_saved_iff_flag [of "\<lparr>input_json = None, save_plot = True\<rparr>" ?w,
      THEN conjunct2, rule_format, OF hyp]
  note f = chart_saved_iff_flag [of "\<lparr>input_json = None, save_plot = False\<rparr>" ?w,
      THEN conjunct2, rule_format, OF hyp]
  have nofiles: "files ?w = []" by (simp add: module_init_def)
  from t f show ?thesis
    by (simp add: segs yl nofiles)
qed

text \<open>A file holding a single sample is plotted and saved like any other.\<close>

lemma single_sample_file_is_saved:
  "fst (main \<lparr>input_json = Some p, save_plot = True\<rparr>
     (module_init (\<lambda>_. Inr [(''1'', \<lparr>genotype = ''het'', allele_1_count = 4, allele_2_count = 40\<rparr>)])))
     = Inr () \<and>
   map (\<lambda>(name, dpi, fig). (name, dpi, ylims fig))
     (files (snd (main \<lparr>input_json = Some p, save_plot = True\<rparr>
       (module_init (\<lambda>_. Inr [(''1'', \<lparr>genotype = ''het'', allele_1_count = 4, allele_2_count = 40\<rparr>)])))))
     = [(''allele_count_graph.png'', 300, [(0, 50)])]"
proof -
  let ?d = "[(''1'', \<lparr>genotype = ''het'', allele_1_count = 4, allele_2_count = 40\<rparr>)]"
  let ?a = "\<lparr>input_json = Some p, save_plot = True\<rparr>"
  define w1 where "w1 = snd (read_data (Some p) (module_init (\<lambda>_. Inr ?d)))"
  have rd: "read_data (input_json ?a) (module_init (\<lambda>_. Inr ?d)) = (Inr 1, w1)"
    by (simp add: w1_def read_data_def module_init_def)
  have h: "heap w1 1 = ?d" by (simp add: w1_def read_data_def module_init_def)
  have wf: "wf_dict (heap w1 1)" unfolding h by (simp add: wf_dict_def)
  have ne: "heap w1 1 \<noteq> []" unfolding h by simp
  have u: "ylim_upper (heap w1 1) = 50" unfolding h by (simp add: ylim_upper_def largest_pair_def)
  note run = ylim_nonempty [OF wf ne, unfolded u]
  from run have ok: "fst (create_plot 1 w1) = Inr ()" by simp
  have nofiles: "files (module_init (\<lambda>_. Inr ?d)) = []" by (simp add: module_init_def)
  note f = main_files [of ?a "module_init (\<lambda>_. Inr ?d)", unfolded rd prod.case sum.case]
  from main_returns [OF rd ok] f ok run show ?thesis
    by (simp add: nofiles)
qed

section \<open>Records with an unrecognised genotype\<close>




end
